theory Spec2Isabelle
  imports Complex_Main "HOL-Library.Sublist"
begin

section \<open>Button debouncing (src/main.py, LightController)\<close>

text \<open>
  \<^verbatim>\<open>DEBOUNCE_TIME = 50      # 50ms button debouncing\<close>
\<close>

definition DEBOUNCE_TIME :: int where
  "DEBOUNCE_TIME = 50"

text \<open>
  The fields of \<^verbatim>\<open>LightController\<close> that \<^verbatim>\<open>button_pressed\<close> reads and writes.
  \<^verbatim>\<open>__init__\<close> sets \<^verbatim>\<open>self.last_button_time = 0\<close> and
  \<^verbatim>\<open>self.system_ready = False\<close>.
\<close>

record LightController =
  last_button_time :: int
  system_ready :: bool

definition LightController_init :: LightController where
  "LightController_init = \<lparr>last_button_time = 0, system_ready = False\<rparr>"

text \<open>What the interrupt handler does to the outside, in order.\<close>

datatype action =
    Print string
  | BlinkSystemLed
  | TimerOneShot int

text \<open>
  \<^verbatim>\<open>time.ticks_diff\<close> belongs to the MicroPython runtime, not to the repository, so
  the handler takes it as the parameter \<open>td\<close>; \<open>current_time\<close> is the value that
  \<^verbatim>\<open>time.ticks_ms()\<close> returned for this press.
  \<^verbatim>\<open>
    def button_pressed(self, pin):
        current_time = time.ticks_ms()
        if time.ticks_diff(current_time, self.last_button_time) < DEBOUNCE_TIME:
            return
        self.last_button_time = current_time
        if not self.system_ready:
            print("System not ready, ignoring button press")
            return
        print("Button pressed!")
        self.blink_system_led()
        Timer(-1).init(mode=Timer.ONE_SHOT, period=10, callback=lambda t: self.toggle_light())
  \<close>
\<close>

definition button_pressed ::
  "(int \<Rightarrow> int \<Rightarrow> int) \<Rightarrow> int \<Rightarrow> LightController \<Rightarrow> LightController \<times> action list" where
  "button_pressed td current_time self =
     (if td current_time (last_button_time self) < DEBOUNCE_TIME then (self, [])
      else
        let self' = self\<lparr>last_button_time := current_time\<rparr> in
        if \<not> system_ready self' then
          (self', [Print ''System not ready, ignoring button press''])
        else
          (self', [Print ''Button pressed!'', BlinkSystemLed, TimerOneShot 10]))"

text \<open>
  The runtime's tick arithmetic as MicroPython documents it: tick values live in
  \<open>[0, TICKS_PERIOD)\<close> and \<^verbatim>\<open>ticks_diff(a, b)\<close> is the signed difference modulo the
  period, in \<open>[-TICKS_PERIOD/2, TICKS_PERIOD/2)\<close>. The ESP32 port has a period of \<open>2^30\<close>.
\<close>

definition TICKS_PERIOD :: int where
  "TICKS_PERIOD = 2 ^ 30"

definition ticks_diff :: "int \<Rightarrow> int \<Rightarrow> int" where
  "ticks_diff a b =
     ((a - b + TICKS_PERIOD div 2) mod TICKS_PERIOD) - TICKS_PERIOD div 2"

text \<open>The gate let the press through: the handler got past its first \<^verbatim>\<open>return\<close>.\<close>

definition gate_accepted :: "LightController \<times> action list \<Rightarrow> bool" where
  "gate_accepted r = (snd r \<noteq> [])"

section \<open>Python values and exceptions (src/lighting/lifx_api.py)\<close>

text \<open>
  What \<^verbatim>\<open>response.json()\<close> can return. A float is kept as a rational (no claim
  computes with it); a dict is the list of its items, each key once.
\<close>

datatype json =
    JNull
  | JBool bool
  | JInt int
  | JFloat rat
  | JStr string
  | JList "json list"
  | JObj "(string \<times> json) list"

text \<open>
  \<^verbatim>\<open>class LIFXAPIError(Exception)\<close>, and every other \<^verbatim>\<open>Exception\<close> with its class
  name and its message. The messages of the interpreter's own exceptions are worded as
  CPython 3.8 to 3.10 words them; MicroPython words them differently, and no property
  below depends on the wording. Exceptions outside \<^verbatim>\<open>Exception\<close>
  (\<^verbatim>\<open>KeyboardInterrupt\<close>) are not modelled.
\<close>

datatype exn =
    LIFXAPIError string
  | OtherException string string

fun py_str :: "exn \<Rightarrow> string" where
  "py_str (LIFXAPIError m) = m"
| "py_str (OtherException cls m) = m"

text \<open>\<^verbatim>\<open>except LIFXAPIError: raise\<close> / \<^verbatim>\<open>except Exception as e: raise LIFXAPIError(f"<prefix>{str(e)}")\<close>\<close>

fun reraise :: "string \<Rightarrow> exn \<Rightarrow> exn" where
  "reraise pre (LIFXAPIError m) = LIFXAPIError m"
| "reraise pre (OtherException cls m) = LIFXAPIError (pre @ m)"

text \<open>\<^verbatim>\<open>str(n)\<close> for an integer.\<close>

fun str_nat :: "nat \<Rightarrow> string" where
  "str_nat n =
     (if n < 10 then [''0123456789'' ! n]
      else str_nat (n div 10) @ [''0123456789'' ! (n mod 10)])"

declare str_nat.simps [simp del]

definition str_int :: "int \<Rightarrow> string" where
  "str_int i = (if i < 0 then CHR ''-'' # str_nat (nat (- i)) else str_nat (nat i))"

text \<open>\<^verbatim>\<open>type(v).__name__\<close>, as it appears in the interpreter's messages.\<close>

fun type_name :: "json \<Rightarrow> string" where
  "type_name JNull = ''NoneType''"
| "type_name (JBool b) = ''bool''"
| "type_name (JInt i) = ''int''"
| "type_name (JFloat r) = ''float''"
| "type_name (JStr s) = ''str''"
| "type_name (JList xs) = ''list''"
| "type_name (JObj kvs) = ''dict''"

text \<open>\<^verbatim>\<open>bool(v)\<close>: what \<^verbatim>\<open>if not v\<close> tests.\<close>

fun truthy :: "json \<Rightarrow> bool" where
  "truthy JNull = False"
| "truthy (JBool b) = b"
| "truthy (JInt i) = (i \<noteq> 0)"
| "truthy (JFloat r) = (r \<noteq> 0)"
| "truthy (JStr s) = (s \<noteq> [])"
| "truthy (JList xs) = (xs \<noteq> [])"
| "truthy (JObj kvs) = (kvs \<noteq> [])"

text \<open>\<^verbatim>\<open>v[0]\<close>. A parsed dict has string keys only, so \<^verbatim>\<open>0\<close> is never one of them.\<close>

fun index0 :: "json \<Rightarrow> exn + json" where
  "index0 (JList []) = Inl (OtherException ''IndexError'' ''list index out of range'')"
| "index0 (JList (x # xs)) = Inr x"
| "index0 (JStr []) = Inl (OtherException ''IndexError'' ''string index out of range'')"
| "index0 (JStr (c # cs)) = Inr (JStr [c])"
| "index0 (JObj kvs) = Inl (OtherException ''KeyError'' ''0'')"
| "index0 v =
     Inl (OtherException ''TypeError''
           ([CHR 0x27] @ type_name v @ [CHR 0x27] @ '' object is not subscriptable''))"

text \<open>\<^verbatim>\<open>v[key]\<close> for a string key.\<close>

fun getitem :: "json \<Rightarrow> string \<Rightarrow> exn + json" where
  "getitem (JObj kvs) key =
     (case map_of kvs key of
        None \<Rightarrow> Inl (OtherException ''KeyError'' ([CHR 0x27] @ key @ [CHR 0x27]))
      | Some v \<Rightarrow> Inr v)"
| "getitem (JList xs) key =
     Inl (OtherException ''TypeError'' ''list indices must be integers or slices, not str'')"
| "getitem (JStr s) key =
     Inl (OtherException ''TypeError'' ''string indices must be integers'')"
| "getitem v key =
     Inl (OtherException ''TypeError''
           ([CHR 0x27] @ type_name v @ [CHR 0x27] @ '' object is not subscriptable''))"

text \<open>\<^verbatim>\<open>key in v\<close> for a string key: a dict key, a list element, a substring.\<close>

fun contains_sub :: "string \<Rightarrow> string \<Rightarrow> bool" where
  "contains_sub p [] = (p = [])"
| "contains_sub p (c # cs) = (prefix p (c # cs) \<or> contains_sub p cs)"

fun py_in :: "string \<Rightarrow> json \<Rightarrow> exn + bool" where
  "py_in key (JObj kvs) = Inr (key \<in> set (map fst kvs))"
| "py_in key (JList xs) = Inr (JStr key \<in> set xs)"
| "py_in key (JStr s) = Inr (contains_sub key s)"
| "py_in key v =
     Inl (OtherException ''TypeError''
           (''argument of type '' @ [CHR 0x27] @ type_name v @ [CHR 0x27] @ '' is not iterable''))"

text \<open>\<^verbatim>\<open>for r in v\<close>: list elements, dict keys, the characters of a string.\<close>

fun py_iter :: "json \<Rightarrow> exn + json list" where
  "py_iter (JList xs) = Inr xs"
| "py_iter (JObj kvs) = Inr (map (\<lambda>kv. JStr (fst kv)) kvs)"
| "py_iter (JStr s) = Inr (map (\<lambda>c. JStr [c]) s)"
| "py_iter v =
     Inl (OtherException ''TypeError''
           ([CHR 0x27] @ type_name v @ [CHR 0x27] @ '' object is not iterable''))"

text \<open>\<^verbatim>\<open>r.get(key)\<close>: only a dict has \<^verbatim>\<open>get\<close>; a missing key gives \<^verbatim>\<open>None\<close>.\<close>

fun dict_get :: "json \<Rightarrow> string \<Rightarrow> exn + json" where
  "dict_get (JObj kvs) key = Inr (case map_of kvs key of None \<Rightarrow> JNull | Some v \<Rightarrow> v)"
| "dict_get v key =
     Inl (OtherException ''AttributeError''
           ([CHR 0x27] @ type_name v @ [CHR 0x27] @ '' object has no attribute ''
            @ [CHR 0x27] @ ''get'' @ [CHR 0x27]))"

section \<open>The HTTP library and the network\<close>

text \<open>
  One call of \<^verbatim>\<open>requests.get\<close> or \<^verbatim>\<open>requests.put\<close>: the method, the URL, the headers,
  the body handed to \<^verbatim>\<open>json.dumps\<close> (or \<^verbatim>\<open>None\<close>) and the timeout in seconds.
\<close>

record request =
  req_method :: string
  req_url :: string
  req_headers :: "(string \<times> string) list"
  req_data :: "json option"
  req_timeout :: rat

text \<open>
  A response object: \<^verbatim>\<open>status_code\<close>, \<^verbatim>\<open>text\<close>, and what \<^verbatim>\<open>json()\<close> does (it
  raises, or returns the parsed body). \<^verbatim>\<open>close()\<close> releases the connection and does
  not raise.
\<close>

record response =
  status_code :: int
  resp_text :: string
  json_result :: "exn + json"

text \<open>
  The library and the service behind it are not part of the repository: they are the
  parameter \<open>http\<close>, which answers a request in a service state \<open>'w\<close> by raising or by a
  response, and gives the next service state. What the client did is kept in a trace.
\<close>

type_synonym 'w transport = "request \<Rightarrow> 'w \<Rightarrow> (exn + response) \<times> 'w"

datatype event =
    Sent request
  | Closed

record 'w net =
  world :: 'w
  trace :: "event list"

definition requests_call :: "'w transport \<Rightarrow> request \<Rightarrow> 'w net \<Rightarrow> (exn + response) \<times> 'w net" where
  "requests_call http req s =
     (case http req (world s) of
        (out, w') \<Rightarrow> (out, \<lparr>world = w', trace = trace s @ [Sent req]\<rparr>))"

definition response_close :: "'w net \<Rightarrow> 'w net" where
  "response_close s = s\<lparr>trace := trace s @ [Closed]\<rparr>"

text \<open>The write requests in a trace, in order.\<close>

fun is_write :: "event \<Rightarrow> bool" where
  "is_write (Sent r) = (req_method r = ''PUT'')"
| "is_write Closed = False"

definition writes_of :: "event list \<Rightarrow> event list" where
  "writes_of tr = filter is_write tr"

section \<open>LIFXController (src/lighting/lifx_api.py)\<close>

record LIFXController =
  api_token :: string
  timeout :: rat
  base_url :: string

text \<open>
  \<^verbatim>\<open>self.api_token = api_token or LIFX_TOKEN\<close>: the argument (here \<open>token_arg\<close>) when it
  is given and not empty, otherwise the token of the \<^verbatim>\<open>secrets\<close> module, which is outside the
  repository and therefore a parameter here.
\<close>

definition effective_token :: "string \<Rightarrow> string option \<Rightarrow> string" where
  "effective_token LIFX_TOKEN token_arg =
     (case token_arg of
        None \<Rightarrow> LIFX_TOKEN
      | Some t \<Rightarrow> if t = [] then LIFX_TOKEN else t)"

text \<open>
  \<^verbatim>\<open>
    def __init__(self, api_token=None, timeout=400):
        self.api_token = api_token or LIFX_TOKEN
        self.timeout = timeout / 1000.0
        self.base_url = "https://api.lifx.com/v1"
        if not self.api_token or len(self.api_token) != 64:
            raise LIFXAPIError("Invalid LIFX API token format")
  \<close>
\<close>

definition LIFXController_init :: "string \<Rightarrow> string option \<Rightarrow> int \<Rightarrow> exn + LIFXController" where
  "LIFXController_init LIFX_TOKEN token_arg timeout_ms =
     (let self = \<lparr>api_token = effective_token LIFX_TOKEN token_arg,
                  timeout = of_int timeout_ms / 1000,
                  base_url = ''https://api.lifx.com/v1''\<rparr>
      in if api_token self = [] \<or> length (api_token self) \<noteq> 64
         then Inl (LIFXAPIError ''Invalid LIFX API token format'')
         else Inr self)"

text \<open>The URL and headers that \<^verbatim>\<open>_make_request\<close> builds before its \<^verbatim>\<open>try\<close>.\<close>

definition build_request ::
  "LIFXController \<Rightarrow> string \<Rightarrow> string \<Rightarrow> json option \<Rightarrow> request" where
  "build_request self method endpoint json_data =
     \<lparr>req_method = method,
      req_url = base_url self @ ''/'' @ endpoint,
      req_headers = [(''Authorization'', ''Bearer '' @ api_token self),
                     (''Content-Type'', ''application/json'')],
      req_data = json_data,
      req_timeout = timeout self\<rparr>"

text \<open>
  The \<^verbatim>\<open>except Exception as e\<close> block of \<^verbatim>\<open>_make_request\<close>:
  \<^verbatim>\<open>
        except Exception as e:
            if hasattr(response, 'close'):
                response.close()
            if isinstance(e, LIFXAPIError):
                raise
            else:
                raise LIFXAPIError(f"Request failed: {str(e)}")
  \<close>
  \<open>bound\<close> says whether the local variable \<^verbatim>\<open>response\<close> has been assigned when the
  block is entered. When it has not, evaluating \<^verbatim>\<open>response\<close> raises
  \<^verbatim>\<open>UnboundLocalError\<close> inside the handler, and that exception leaves the function.
\<close>

definition request_handler :: "bool \<Rightarrow> exn \<Rightarrow> 'w net \<Rightarrow> (exn + json) \<times> 'w net" where
  "request_handler bound e s =
     (if \<not> bound then
        (Inl (OtherException ''UnboundLocalError''
               ''local variable 'response' referenced before assignment''), s)
      else (Inl (reraise ''Request failed: '' e), response_close s))"

text \<open>
  The rest of the \<^verbatim>\<open>try\<close> block once \<^verbatim>\<open>response\<close> is assigned:
  \<^verbatim>\<open>
            if response.status_code not in [200, 207]:
                raise LIFXAPIError(f"HTTP {response.status_code}: {response.text}")
            result = response.json()
            response.close()
            return result
  \<close>
\<close>

definition read_response :: "response \<Rightarrow> 'w net \<Rightarrow> (exn + json) \<times> 'w net" where
  "read_response response s =
     (if status_code response \<notin> {200, 207} then
        request_handler True
          (LIFXAPIError (''HTTP '' @ str_int (status_code response) @ '': ''
                          @ resp_text response)) s
      else
        case json_result response of
          Inl e \<Rightarrow> request_handler True e s
        | Inr result \<Rightarrow> (Inr result, response_close s))"

text \<open>
  \<^verbatim>\<open>
    def _make_request(self, method, endpoint, data=None):
        ...
        try:
            if method == 'GET':
                response = requests.get(url, headers=headers, timeout=self.timeout)
            elif method == 'PUT':
                json_data = json.dumps(data) if data else None
                response = requests.put(url, headers=headers, data=json_data, timeout=self.timeout)
            else:
                raise LIFXAPIError(f"Unsupported HTTP method: {method}")
            ...
  \<close>
  \<open>data\<close> is the dict of the caller (its items), or \<^verbatim>\<open>None\<close>.
\<close>

definition make_request ::
  "LIFXController \<Rightarrow> 'w transport \<Rightarrow> string \<Rightarrow> string \<Rightarrow> (string \<times> json) list option
     \<Rightarrow> 'w net \<Rightarrow> (exn + json) \<times> 'w net" where
  "make_request self http method endpoint data s =
     (if method = ''GET'' then
        (case requests_call http (build_request self ''GET'' endpoint None) s of
           (Inl e, s1) \<Rightarrow> request_handler False e s1
         | (Inr response, s1) \<Rightarrow> read_response response s1)
      else if method = ''PUT'' then
        (let json_data = (case data of
                            None \<Rightarrow> None
                          | Some d \<Rightarrow> if d = [] then None else Some (JObj d))
         in case requests_call http (build_request self ''PUT'' endpoint json_data) s of
              (Inl e, s1) \<Rightarrow> request_handler False e s1
            | (Inr response, s1) \<Rightarrow> read_response response s1)
      else
        request_handler False (LIFXAPIError (''Unsupported HTTP method: '' @ method)) s)"

text \<open>
  \<^verbatim>\<open>
    def get_light_state(self, light_selector):
        endpoint = f"lights/{light_selector}"
        try:
            lights = self._make_request('GET', endpoint)
            if not lights:
                raise LIFXAPIError(f"No lights found for selector: {light_selector}")
            return lights
        except LIFXAPIError:
            raise
        except Exception as e:
            raise LIFXAPIError(f"Failed to get light state: {str(e)}")
  \<close>
\<close>

definition get_light_state ::
  "LIFXController \<Rightarrow> 'w transport \<Rightarrow> string \<Rightarrow> 'w net \<Rightarrow> (exn + json) \<times> 'w net" where
  "get_light_state self http light_selector s =
     (case make_request self http ''GET'' (''lights/'' @ light_selector) None s of
        (Inl e, s1) \<Rightarrow> (Inl (reraise ''Failed to get light state: '' e), s1)
      | (Inr lights, s1) \<Rightarrow>
          if \<not> truthy lights then
            (Inl (LIFXAPIError (''No lights found for selector: '' @ light_selector)), s1)
          else (Inr lights, s1))"

text \<open>
  The payload of \<^verbatim>\<open>set_light_state\<close>:
  \<^verbatim>\<open>
        state = {}
        if power is not None:
            state['power'] = power
        if brightness is not None:
            state['brightness'] = brightness
        if color is not None:
            state['color'] = color
  \<close>
\<close>

definition build_state ::
  "string option \<Rightarrow> rat option \<Rightarrow> string option \<Rightarrow> (string \<times> json) list" where
  "build_state power' brightness color =
     (case power' of None \<Rightarrow> [] | Some p \<Rightarrow> [(''power'', JStr p)])
     @ (case brightness of None \<Rightarrow> [] | Some b \<Rightarrow> [(''brightness'', JFloat b)])
     @ (case color of None \<Rightarrow> [] | Some c \<Rightarrow> [(''color'', JStr c)])"

text \<open>
  \<^verbatim>\<open>sum(1 for r in result['results'] if r.get('status') == 'ok')\<close> over the items
  already taken from the iterable; the first item without \<^verbatim>\<open>get\<close> raises.
\<close>

fun count_ok :: "json list \<Rightarrow> exn + nat" where
  "count_ok [] = Inr 0"
| "count_ok (r # rs) =
     (case dict_get r ''status'' of
        Inl e \<Rightarrow> Inl e
      | Inr v \<Rightarrow>
          (case count_ok rs of
             Inl e \<Rightarrow> Inl e
           | Inr n \<Rightarrow> Inr ((if v = JStr ''ok'' then 1 else 0) + n)))"

text \<open>
  \<^verbatim>\<open>
            if 'results' in result:
                success_count = sum(1 for r in result['results'] if r.get('status') == 'ok')
                if success_count == 0:
                    raise LIFXAPIError("No lights were successfully updated")
  \<close>
\<close>

definition check_results :: "json \<Rightarrow> exn + unit" where
  "check_results result =
     (case py_in ''results'' result of
        Inl e \<Rightarrow> Inl e
      | Inr False \<Rightarrow> Inr ()
      | Inr True \<Rightarrow>
          (case getitem result ''results'' of
             Inl e \<Rightarrow> Inl e
           | Inr results \<Rightarrow>
               (case py_iter results of
                  Inl e \<Rightarrow> Inl e
                | Inr items \<Rightarrow>
                    (case count_ok items of
                       Inl e \<Rightarrow> Inl e
                     | Inr success_count \<Rightarrow>
                         if success_count = 0
                         then Inl (LIFXAPIError ''No lights were successfully updated'')
                         else Inr ()))))"

text \<open>
  \<^verbatim>\<open>
    def set_light_state(self, light_selector, power=None, brightness=None, color=None):
        ... build state ...
        if not state:
            raise LIFXAPIError("No state changes specified")
        endpoint = f"lights/{light_selector}/state"
        try:
            result = self._make_request('PUT', endpoint, state)
            ... check results ...
            return result
        except LIFXAPIError:
            raise
        except Exception as e:
            raise LIFXAPIError(f"Failed to set light state: {str(e)}")
  \<close>
\<close>

definition set_light_state ::
  "LIFXController \<Rightarrow> 'w transport \<Rightarrow> string \<Rightarrow> string option \<Rightarrow> rat option \<Rightarrow> string option
     \<Rightarrow> 'w net \<Rightarrow> (exn + json) \<times> 'w net" where
  "set_light_state self http light_selector power' brightness color s =
     (let state = build_state power' brightness color in
      if state = [] then (Inl (LIFXAPIError ''No state changes specified''), s)
      else
        case make_request self http ''PUT'' (''lights/'' @ light_selector @ ''/state'')
               (Some state) s of
          (Inl e, s1) \<Rightarrow> (Inl (reraise ''Failed to set light state: '' e), s1)
        | (Inr result, s1) \<Rightarrow>
            (case check_results result of
               Inl e \<Rightarrow> (Inl (reraise ''Failed to set light state: '' e), s1)
             | Inr u \<Rightarrow> (Inr result, s1)))"

text \<open>The dict that \<^verbatim>\<open>toggle_light\<close> returns.\<close>

record toggle_result =
  old_power :: json
  new_power :: string
  api_response :: json
  success :: bool

text \<open>
  \<^verbatim>\<open>
    def toggle_light(self, light_selector):
        try:
            lights = self.get_light_state(light_selector)
            current_power = lights[0]['power']
            new_power = 'off' if current_power == 'on' else 'on'
            result = self.set_light_state(light_selector, power=new_power)
            return {'old_power': current_power, 'new_power': new_power,
                    'api_response': result, 'success': True}
        except LIFXAPIError:
            raise
        except Exception as e:
            raise LIFXAPIError(f"Toggle failed: {str(e)}")
  \<close>
\<close>

definition toggle_light ::
  "LIFXController \<Rightarrow> 'w transport \<Rightarrow> string \<Rightarrow> 'w net \<Rightarrow> (exn + toggle_result) \<times> 'w net" where
  "toggle_light self http light_selector s =
     (case get_light_state self http light_selector s of
        (Inl e, s1) \<Rightarrow> (Inl (reraise ''Toggle failed: '' e), s1)
      | (Inr lights, s1) \<Rightarrow>
          (case index0 lights of
             Inl e \<Rightarrow> (Inl (reraise ''Toggle failed: '' e), s1)
           | Inr first \<Rightarrow>
               (case getitem first ''power'' of
                  Inl e \<Rightarrow> (Inl (reraise ''Toggle failed: '' e), s1)
                | Inr current_power \<Rightarrow>
                    (let new_power = (if current_power = JStr ''on'' then ''off'' else ''on'')
                     in case set_light_state self http light_selector (Some new_power)
                               None None s1 of
                          (Inl e, s2) \<Rightarrow> (Inl (reraise ''Toggle failed: '' e), s2)
                        | (Inr result, s2) \<Rightarrow>
                            (Inr \<lparr>old_power = current_power, new_power = new_power,
                                  api_response = result, success = True\<rparr>, s2)))))"

section \<open>A service for concrete runs\<close>

text \<open>
  A stand-in for the cloud service, answering as the mocks of \<^verbatim>\<open>tests/test_main.py\<close>
  do: a \<^verbatim>\<open>GET\<close> gives status 200 and one light with the service's current power, a
  \<^verbatim>\<open>PUT\<close> gives status 207 and one \<^verbatim>\<open>ok\<close> result. The service state is the light's
  power, and a \<^verbatim>\<open>PUT\<close> carrying a power stores it.
\<close>

definition light_service :: "json transport" where
  "light_service req w =
     (if req_method req = ''GET'' then
        (Inr \<lparr>status_code = 200, resp_text = [],
              json_result = Inr (JList [JObj [(''power'', w), (''brightness'', JFloat (4 / 5))]])\<rparr>,
         w)
      else
        (Inr \<lparr>status_code = 207, resp_text = [],
              json_result = Inr (JObj [(''results'', JList [JObj [(''status'', JStr ''ok'')]])])\<rparr>,
         case req_data req of
           Some (JObj kvs) \<Rightarrow> (case map_of kvs ''power'' of None \<Rightarrow> w | Some p \<Rightarrow> p)
         | _ \<Rightarrow> w))"

text \<open>
  A service for bulk writes: whatever is written, it answers status 207 with the
  per-device results held in its state.
\<close>

definition reporting_service :: "json list transport" where
  "reporting_service req w =
     (Inr \<lparr>status_code = 207, resp_text = [],
           json_result = Inr (JObj [(''results'', JList w)])\<rparr>, w)"

text \<open>A network that is down: every call raises, as in \<^verbatim>\<open>test_toggle_light_failure\<close>.\<close>

definition network_down :: "unit transport" where
  "network_down req w = (Inl (OtherException ''Exception'' ''Network error''), w)"

text \<open>A controller as \<^verbatim>\<open>LIFXController(api_token='a' * 64)\<close> builds it.\<close>

definition test_controller :: LIFXController where
  "test_controller =
     \<lparr>api_token = replicate 64 CHR ''a'', timeout = 2 / 5, base_url = ''https://api.lifx.com/v1''\<rparr>"

section \<open>Debounce properties\<close>






text \<open>
  C7. The first press after startup is judged against \<^verbatim>\<open>last_button_time = 0\<close>, the
  value \<^verbatim>\<open>__init__\<close> stores. A first press whose tick value is 10 measures a
  difference of 10 ms from that initial value and is suppressed: the handler returns at
  the debounce check, leaves the controller as constructed and does nothing.
\<close>

theorem first_press_suppressed:
  "ticks_diff 10 (last_button_time LightController_init) = 10
   \<and> button_pressed ticks_diff 10 LightController_init = (LightController_init, [])
   \<and> \<not> gate_accepted (button_pressed ticks_diff 10 LightController_init)"
  by (simp add: button_pressed_def gate_accepted_def DEBOUNCE_TIME_def LightController_init_def
      ticks_diff_def TICKS_PERIOD_def)

section \<open>What the requests of the controller leave in the trace\<close>

lemma reraise_is_api: "\<exists>m. reraise pre e = LIFXAPIError m"
  by (cases e) simp_all

lemma requests_call_trace:
  "requests_call http req s = (out, s1) \<Longrightarrow> trace s1 = trace s @ [Sent req]"
  by (auto simp: requests_call_def split: prod.splits)

lemma request_handler_trace:
  "request_handler b e s = (out, s1) \<Longrightarrow>
     (\<exists>x. out = Inl x) \<and> (trace s1 = trace s \<or> trace s1 = trace s @ [Closed])"
  by (auto simp: request_handler_def response_close_def split: if_splits)

lemma read_response_trace:
  "read_response r s = (out, s1) \<Longrightarrow> trace s1 = trace s @ [Closed]"
  by (auto simp: read_response_def request_handler_def response_close_def
      split: if_splits sum.splits)

lemma make_request_GET_writes:
  "make_request self http ''GET'' ep d s = (out, s1) \<Longrightarrow>
     writes_of (trace s1) = writes_of (trace s)"
  by (auto simp: make_request_def writes_of_def build_request_def
      split: prod.splits sum.splits
      dest!: requests_call_trace request_handler_trace read_response_trace)

lemma make_request_PUT_writes:
  "make_request self http ''PUT'' ep (Some d) s = (out, s1) \<Longrightarrow> d \<noteq> [] \<Longrightarrow>
     writes_of (trace s1) = writes_of (trace s) @ [Sent (build_request self ''PUT'' ep (Some (JObj d)))]"
  by (auto simp: make_request_def writes_of_def build_request_def
      split: prod.splits sum.splits
      dest!: requests_call_trace request_handler_trace read_response_trace)

lemma get_light_state_error:
  "get_light_state self http sel s = (Inl e, s1) \<Longrightarrow> \<exists>m. e = LIFXAPIError m"
  using reraise_is_api
  by (auto simp: get_light_state_def split: prod.splits sum.splits if_splits)

lemma get_light_state_writes:
  "get_light_state self http sel s = (out, s1) \<Longrightarrow>
     writes_of (trace s1) = writes_of (trace s)"
  by (auto simp: get_light_state_def split: prod.splits sum.splits if_splits
      dest: make_request_GET_writes)

lemma set_light_state_error:
  "set_light_state self http sel p b c s = (Inl e, s1) \<Longrightarrow> \<exists>m. e = LIFXAPIError m"
  using reraise_is_api
  by (auto simp: set_light_state_def Let_def split: prod.splits sum.splits if_splits)

lemma set_light_state_power_writes:
  "set_light_state self http sel (Some p) None None s = (out, s1) \<Longrightarrow>
     writes_of (trace s1) = writes_of (trace s) @
       [Sent (build_request self ''PUT'' (''lights/'' @ sel @ ''/state'')
               (Some (JObj [(''power'', JStr p)])))]"
  by (auto simp: set_light_state_def Let_def build_state_def
      split: prod.splits sum.splits if_splits
      dest: make_request_PUT_writes)

lemma build_request_sel [simp]:
  "req_method (build_request self m ep d) = m"
  "req_data (build_request self m ep d) = d"
  by (simp_all add: build_request_def)

text \<open>
  Once the call has returned a response, every way out of \<^verbatim>\<open>_make_request\<close> closes
  it: the normal return, the status check and a failing \<^verbatim>\<open>json()\<close>.
\<close>

lemma response_errors_close:
  "requests_call http req s = (Inr response, s1) \<Longrightarrow>
   read_response response s1 = (out, s2) \<Longrightarrow>
   trace s2 = trace s @ [Sent req, Closed]"
  by (auto dest!: requests_call_trace read_response_trace)

text \<open>
  When the call raises instead, or the method is neither \<^verbatim>\<open>GET\<close> nor \<^verbatim>\<open>PUT\<close>,
  the handler runs with \<^verbatim>\<open>response\<close> unassigned: nothing is closed, and the error
  that leaves is the handler's \<^verbatim>\<open>UnboundLocalError\<close>.
\<close>

lemma call_error_unbound:
  "requests_call http (build_request self ''GET'' ep None) s = (Inl e, s1) \<Longrightarrow>
   make_request self http ''GET'' ep None s =
     (Inl (OtherException ''UnboundLocalError''
            ''local variable 'response' referenced before assignment''), s1)
   \<and> trace s1 = trace s @ [Sent (build_request self ''GET'' ep None)]"
  by (auto simp: make_request_def request_handler_def dest: requests_call_trace)

section \<open>Runs against the stand-in services\<close>

lemma light_service_get:
  "get_light_state self light_service sel \<lparr>world = w, trace = tr\<rparr> =
     (Inr (JList [JObj [(''power'', w), (''brightness'', JFloat (4 / 5))]]),
      \<lparr>world = w, trace = tr @ [Sent (build_request self ''GET'' (''lights/'' @ sel) None), Closed]\<rparr>)"
  by (simp add: get_light_state_def make_request_def requests_call_def read_response_def
      response_close_def light_service_def)

lemma light_service_set:
  "set_light_state self light_service sel (Some p) None None \<lparr>world = w, trace = tr\<rparr> =
     (Inr (JObj [(''results'', JList [JObj [(''status'', JStr ''ok'')]])]),
      \<lparr>world = JStr p,
       trace = tr @ [Sent (build_request self ''PUT'' (''lights/'' @ sel @ ''/state'')
                            (Some (JObj [(''power'', JStr p)]))), Closed]\<rparr>)"
  by (simp add: set_light_state_def build_state_def make_request_def requests_call_def
      read_response_def response_close_def light_service_def check_results_def)

lemma light_service_toggle:
  "toggle_light self light_service sel \<lparr>world = w, trace = tr\<rparr> =
     (Inr \<lparr>old_power = w, new_power = (if w = JStr ''on'' then ''off'' else ''on''),
           api_response = JObj [(''results'', JList [JObj [(''status'', JStr ''ok'')]])],
           success = True\<rparr>,
      \<lparr>world = JStr (if w = JStr ''on'' then ''off'' else ''on''),
       trace = tr @ [Sent (build_request self ''GET'' (''lights/'' @ sel) None), Closed,
                     Sent (build_request self ''PUT'' (''lights/'' @ sel @ ''/state'')
                            (Some (JObj [(''power'',
                               JStr (if w = JStr ''on'' then ''off'' else ''on''))]))),
                     Closed]\<rparr>)"
  by (simp add: toggle_light_def light_service_get light_service_set Let_def)

lemma network_down_get:
  "get_light_state self network_down sel \<lparr>world = (), trace = tr\<rparr> =
     (Inl (LIFXAPIError
            ''Failed to get light state: local variable 'response' referenced before assignment''),
      \<lparr>world = (), trace = tr @ [Sent (build_request self ''GET'' (''lights/'' @ sel) None)]\<rparr>)"
  by (simp add: get_light_state_def make_request_def requests_call_def request_handler_def
      network_down_def)

lemma reporting_service_put:
  "d \<noteq> [] \<Longrightarrow> make_request self reporting_service ''PUT'' ep (Some d) \<lparr>world = w, trace = tr\<rparr> =
     (Inr (JObj [(''results'', JList w)]),
      \<lparr>world = w, trace = tr @ [Sent (build_request self ''PUT'' ep (Some (JObj d))), Closed]\<rparr>)"
  by (simp add: make_request_def requests_call_def read_response_def response_close_def
      reporting_service_def)

section \<open>Toggle protocol\<close>

lemma toggle_light_decided:
  assumes "get_light_state self http sel s = (Inr (JList (JObj first # others)), s1)"
    and "map_of first ''power'' = Some v"
  shows "toggle_light self http sel s =
     (case set_light_state self http sel (Some (if v = JStr ''on'' then ''off'' else ''on''))
             None None s1 of
        (Inl e, s2) \<Rightarrow> (Inl e, s2)
      | (Inr r, s2) \<Rightarrow>
          (Inr \<lparr>old_power = v, new_power = (if v = JStr ''on'' then ''off'' else ''on''),
                api_response = r, success = True\<rparr>, s2))"
proof -
  obtain out s2 where w:
    "set_light_state self http sel (Some (if v = JStr ''on'' then ''off'' else ''on''))
       None None s1 = (out, s2)"
    by (cases "set_light_state self http sel (Some (if v = JStr ''on'' then ''off'' else ''on''))
       None None s1")
  show ?thesis
  proof (cases out)
    case (Inl e)
    with w obtain m where "e = LIFXAPIError m"
      using set_light_state_error by blast
    with Inl w assms show ?thesis
      by (simp add: toggle_light_def Let_def)
  next
    case (Inr r)
    with w assms show ?thesis
      by (simp add: toggle_light_def Let_def)
  qed
qed

lemma toggle_light_success:
  assumes "toggle_light self http sel s = (Inr r, s2)"
  shows "new_power r = (if old_power r = JStr ''on'' then ''off'' else ''on'')
         \<and> success r
         \<and> writes_of (trace s2) = writes_of (trace s) @
             [Sent (build_request self ''PUT'' (''lights/'' @ sel @ ''/state'')
                     (Some (JObj [(''power'', JStr (new_power r))])))]"
proof -
  obtain lights s1 where q: "get_light_state self http sel s = (Inr lights, s1)"
    using assms
    by (cases "get_light_state self http sel s")
       (auto simp: toggle_light_def split: sum.splits)
  obtain first where f: "index0 lights = Inr first"
    using assms q by (auto simp: toggle_light_def split: sum.splits)
  obtain v where v: "getitem first ''power'' = Inr v"
    using assms q f by (auto simp: toggle_light_def split: sum.splits)
  let ?new = "if v = JStr ''on'' then ''off'' else ''on''"
  obtain res where w: "set_light_state self http sel (Some ?new) None None s1 = (Inr res, s2)"
    and r: "r = \<lparr>old_power = v, new_power = ?new, api_response = res, success = True\<rparr>"
    using assms q f v
    by (auto simp: toggle_light_def Let_def split: sum.splits prod.splits if_splits)
  have "writes_of (trace s2) = writes_of (trace s1) @
          [Sent (build_request self ''PUT'' (''lights/'' @ sel @ ''/state'')
                  (Some (JObj [(''power'', JStr ?new)])))]"
    using set_light_state_power_writes [OF w] .
  with get_light_state_writes [OF q] r show ?thesis
    by simp
qed

text \<open>
  C1. For every selector: when \<^verbatim>\<open>get_light_state\<close> returns a list whose first entry is
  a light with power \<^verbatim>\<open>"on"\<close> (or \<^verbatim>\<open>"off"\<close>), whatever the other entries are,
  \<^verbatim>\<open>toggle_light\<close> sends exactly one write, a \<^verbatim>\<open>PUT\<close> to the selector's state
  endpoint whose body is the opposite power, and when that write succeeds it returns the
  queried power as \<^verbatim>\<open>old_power\<close>, the opposite as \<^verbatim>\<open>new_power\<close> and
  \<^verbatim>\<open>success = True\<close>; when the write fails, its error is the toggle's error.
\<close>

theorem toggle_flips_first_entry:
  assumes "get_light_state self http sel s = (Inr (JList (JObj first # others)), s1)"
    and "map_of first ''power'' = Some (JStr p)"
    and "p = ''on'' \<or> p = ''off''"
  shows "\<exists>out s2.
     set_light_state self http sel (Some (if p = ''on'' then ''off'' else ''on'')) None None s1
       = (out, s2)
     \<and> writes_of (trace s2) = writes_of (trace s) @
          [Sent (build_request self ''PUT'' (''lights/'' @ sel @ ''/state'')
                  (Some (JObj [(''power'', JStr (if p = ''on'' then ''off'' else ''on''))])))]
     \<and> toggle_light self http sel s =
          (case out of
             Inl e \<Rightarrow> Inl e
           | Inr r \<Rightarrow> Inr \<lparr>old_power = JStr p,
                            new_power = (if p = ''on'' then ''off'' else ''on''),
                            api_response = r, success = True\<rparr>,
           s2)"
proof -
  let ?new = "if p = ''on'' then ''off'' else ''on''"
  obtain out s2 where w: "set_light_state self http sel (Some ?new) None None s1 = (out, s2)"
    by (cases "set_light_state self http sel (Some ?new) None None s1")
  have tr: "writes_of (trace s2) = writes_of (trace s1) @
          [Sent (build_request self ''PUT'' (''lights/'' @ sel @ ''/state'')
                  (Some (JObj [(''power'', JStr ?new)])))]"
    using set_light_state_power_writes [OF w] .
  have rd: "writes_of (trace s1) = writes_of (trace s)"
    using get_light_state_writes [OF assms(1)] .
  have tg: "toggle_light self http sel s =
          (case out of
             Inl e \<Rightarrow> Inl e
           | Inr r \<Rightarrow> Inr \<lparr>old_power = JStr p, new_power = ?new,
                            api_response = r, success = True\<rparr>,
           s2)"
    using toggle_light_decided [OF assms(1,2)] w
    by (cases out) simp_all
  from w tr rd tg show ?thesis
    by (intro exI [of _ out] exI [of _ s2]) simp
qed

theorem toggle_flips_first_entry_witness:
  "get_light_state test_controller light_service ''label:Kitchen''
       \<lparr>world = JStr ''on'', trace = []\<rparr>
     = (Inr (JList (JObj [(''power'', JStr ''on''), (''brightness'', JFloat (4 / 5))] # [])),
        \<lparr>world = JStr ''on'',
         trace = [Sent (build_request test_controller ''GET'' ''lights/label:Kitchen'' None),
                  Closed]\<rparr>)
   \<and> map_of [(''power'', JStr ''on''), (''brightness'', JFloat (4 / 5))] ''power''
       = Some (JStr ''on'')
   \<and> toggle_light test_controller light_service ''label:Kitchen''
        \<lparr>world = JStr ''on'', trace = []\<rparr>
     = (Inr \<lparr>old_power = JStr ''on'', new_power = ''off'',
             api_response = JObj [(''results'', JList [JObj [(''status'', JStr ''ok'')]])],
             success = True\<rparr>,
        \<lparr>world = JStr ''off'',
         trace = [Sent (build_request test_controller ''GET'' ''lights/label:Kitchen'' None),
                  Closed,
                  Sent (build_request test_controller ''PUT'' ''lights/label:Kitchen/state''
                         (Some (JObj [(''power'', JStr ''off'')]))),
                  Closed]\<rparr>)"
proof -
  have q: "get_light_state test_controller light_service ''label:Kitchen''
       \<lparr>world = JStr ''on'', trace = []\<rparr>
     = (Inr (JList (JObj [(''power'', JStr ''on''), (''brightness'', JFloat (4 / 5))] # [])),
        \<lparr>world = JStr ''on'',
         trace = [Sent (build_request test_controller ''GET'' ''lights/label:Kitchen'' None),
                  Closed]\<rparr>)"
    by (simp add: light_service_get)
  have p: "map_of [(''power'', JStr ''on''), (''brightness'', JFloat (4 / 5))] ''power''
       = Some (JStr ''on'')"
    by simp
  have d: "''on'' = ''on'' \<or> ''on'' = ''off''"
    by simp
  show ?thesis
    using q p toggle_flips_first_entry [OF q p d]
    by (auto simp: light_service_set)
qed

text \<open>
  C4. If the state query of a toggle raises, \<^verbatim>\<open>toggle_light\<close> raises that same error
  in the state the query left, and the trace holds no write beyond those it held before
  the toggle: no \<^verbatim>\<open>PUT\<close> is sent.
\<close>

theorem toggle_read_failure:
  assumes "get_light_state self http sel s = (Inl e, s1)"
  shows "toggle_light self http sel s = (Inl e, s1)
         \<and> writes_of (trace s1) = writes_of (trace s)"
proof -
  obtain m where "e = LIFXAPIError m"
    using get_light_state_error [OF assms] by blast
  with assms have "toggle_light self http sel s = (Inl e, s1)"
    by (simp add: toggle_light_def)
  with get_light_state_writes [OF assms] show ?thesis
    by simp
qed

theorem toggle_read_failure_witness:
  "get_light_state test_controller network_down ''label:Kitchen'' \<lparr>world = (), trace = []\<rparr>
     = (Inl (LIFXAPIError
              ''Failed to get light state: local variable 'response' referenced before assignment''),
        \<lparr>world = (),
         trace = [Sent (build_request test_controller ''GET'' ''lights/label:Kitchen'' None)]\<rparr>)
   \<and> toggle_light test_controller network_down ''label:Kitchen'' \<lparr>world = (), trace = []\<rparr>
     = (Inl (LIFXAPIError
              ''Failed to get light state: local variable 'response' referenced before assignment''),
        \<lparr>world = (),
         trace = [Sent (build_request test_controller ''GET'' ''lights/label:Kitchen'' None)]\<rparr>)
   \<and> writes_of [Sent (build_request test_controller ''GET'' ''lights/label:Kitchen'' None)] = []"
proof -
  have q: "get_light_state test_controller network_down ''label:Kitchen''
      \<lparr>world = (), trace = []\<rparr>
     = (Inl (LIFXAPIError
              ''Failed to get light state: local variable 'response' referenced before assignment''),
        \<lparr>world = (),
         trace = [Sent (build_request test_controller ''GET'' ''lights/label:Kitchen'' None)]\<rparr>)"
    by (simp add: network_down_get)
  show ?thesis
    using q toggle_read_failure [OF q]
    by (simp add: writes_of_def)
qed

text \<open>
  C5, as the claim states it, fails: the service reports the power \<^verbatim>\<open>"dim"\<close>, which
  is neither \<^verbatim>\<open>"on"\<close> nor \<^verbatim>\<open>"off"\<close>, and \<^verbatim>\<open>toggle_light\<close> raises nothing: it
  computes the new power \<^verbatim>\<open>"on"\<close>, sends the write and returns success.
\<close>

theorem toggle_unknown_power_counterexample:
  "JStr ''dim'' \<noteq> JStr ''on'' \<and> JStr ''dim'' \<noteq> JStr ''off''
   \<and> fst (toggle_light test_controller light_service ''label:Kitchen''
            \<lparr>world = JStr ''dim'', trace = []\<rparr>)
       = Inr \<lparr>old_power = JStr ''dim'', new_power = ''on'',
              api_response = JObj [(''results'', JList [JObj [(''status'', JStr ''ok'')]])],
              success = True\<rparr>
   \<and> writes_of (trace (snd (toggle_light test_controller light_service ''label:Kitchen''
            \<lparr>world = JStr ''dim'', trace = []\<rparr>)))
       = [Sent (build_request test_controller ''PUT'' ''lights/label:Kitchen/state''
                 (Some (JObj [(''power'', JStr ''on'')])))]"
  by (simp add: light_service_toggle writes_of_def)

text \<open>
  C5, amended. If the power of the first entry is neither \<^verbatim>\<open>"on"\<close> nor
  \<^verbatim>\<open>"off"\<close>, \<^verbatim>\<open>toggle_light\<close> does not treat it as an error: it takes
  \<^verbatim>\<open>"on"\<close> as the new power and sends one write with power \<^verbatim>\<open>"on"\<close>; when that
  write succeeds the result records the reported value as \<^verbatim>\<open>old_power\<close> and
  \<^verbatim>\<open>"on"\<close> as \<^verbatim>\<open>new_power\<close>.
\<close>

theorem toggle_unrecognised_power_writes_on:
  assumes "get_light_state self http sel s = (Inr (JList (JObj first # others)), s1)"
    and "map_of first ''power'' = Some v"
    and "v \<noteq> JStr ''on''" and "v \<noteq> JStr ''off''"
  shows "\<exists>out s2.
     set_light_state self http sel (Some ''on'') None None s1 = (out, s2)
     \<and> writes_of (trace s2) = writes_of (trace s) @
          [Sent (build_request self ''PUT'' (''lights/'' @ sel @ ''/state'')
                  (Some (JObj [(''power'', JStr ''on'')])))]
     \<and> toggle_light self http sel s =
          (case out of
             Inl e \<Rightarrow> Inl e
           | Inr r \<Rightarrow> Inr \<lparr>old_power = v, new_power = ''on'',
                            api_response = r, success = True\<rparr>,
           s2)"
proof -
  obtain out s2 where w: "set_light_state self http sel (Some ''on'') None None s1 = (out, s2)"
    by (cases "set_light_state self http sel (Some ''on'') None None s1")
  have tr: "writes_of (trace s2) = writes_of (trace s1) @
          [Sent (build_request self ''PUT'' (''lights/'' @ sel @ ''/state'')
                  (Some (JObj [(''power'', JStr ''on'')])))]"
    using set_light_state_power_writes [OF w] .
  have rd: "writes_of (trace s1) = writes_of (trace s)"
    using get_light_state_writes [OF assms(1)] .
  have tg: "toggle_light self http sel s =
          (case out of
             Inl e \<Rightarrow> Inl e
           | Inr r \<Rightarrow> Inr \<lparr>old_power = v, new_power = ''on'',
                            api_response = r, success = True\<rparr>,
           s2)"
    using toggle_light_decided [OF assms(1,2)] w assms(3)
    by (cases out) simp_all
  from w tr rd tg show ?thesis
    by (intro exI [of _ out] exI [of _ s2]) simp
qed

theorem toggle_unrecognised_power_writes_on_witness:
  "get_light_state test_controller light_service ''label:Kitchen''
       \<lparr>world = JStr ''dim'', trace = []\<rparr>
     = (Inr (JList (JObj [(''power'', JStr ''dim''), (''brightness'', JFloat (4 / 5))] # [])),
        \<lparr>world = JStr ''dim'',
         trace = [Sent (build_request test_controller ''GET'' ''lights/label:Kitchen'' None),
                  Closed]\<rparr>)
   \<and> JStr ''dim'' \<noteq> JStr ''on'' \<and> JStr ''dim'' \<noteq> JStr ''off''
   \<and> toggle_light test_controller light_service ''label:Kitchen''
        \<lparr>world = JStr ''dim'', trace = []\<rparr>
     = (Inr \<lparr>old_power = JStr ''dim'', new_power = ''on'',
             api_response = JObj [(''results'', JList [JObj [(''status'', JStr ''ok'')]])],
             success = True\<rparr>,
        \<lparr>world = JStr ''on'',
         trace = [Sent (build_request test_controller ''GET'' ''lights/label:Kitchen'' None),
                  Closed,
                  Sent (build_request test_controller ''PUT'' ''lights/label:Kitchen/state''
                         (Some (JObj [(''power'', JStr ''on'')]))),
                  Closed]\<rparr>)"
proof -
  have q: "get_light_state test_controller light_service ''label:Kitchen''
       \<lparr>world = JStr ''dim'', trace = []\<rparr>
     = (Inr (JList (JObj [(''power'', JStr ''dim''), (''brightness'', JFloat (4 / 5))] # [])),
        \<lparr>world = JStr ''dim'',
         trace = [Sent (build_request test_controller ''GET'' ''lights/label:Kitchen'' None),
                  Closed]\<rparr>)"
    by (simp add: light_service_get)
  have p: "map_of [(''power'', JStr ''dim''), (''brightness'', JFloat (4 / 5))] ''power''
       = Some (JStr ''dim'')"
    by simp
  have n1: "JStr ''dim'' \<noteq> JStr ''on''" and n2: "JStr ''dim'' \<noteq> JStr ''off''"
    by simp_all
  show ?thesis
    using q n1 n2 toggle_unrecognised_power_writes_on [OF q p n1 n2]
    by (auto simp: light_service_set)
qed

text \<open>
  C6. Two successful toggles in a row, the second reading the power the first wrote, put
  the light back: for a light whose power before the first toggle is \<^verbatim>\<open>"on"\<close> or
  \<^verbatim>\<open>"off"\<close> (the two power states), the power the second toggle writes is the power
  the first one read, and the two writes are the only ones sent.
\<close>

theorem toggle_twice_restores:
  assumes "toggle_light self http sel s = (Inr r1, s1)"
    and "toggle_light self http sel s1 = (Inr r2, s2)"
    and "old_power r2 = JStr (new_power r1)"
    and "old_power r1 = JStr ''on'' \<or> old_power r1 = JStr ''off''"
  shows "JStr (new_power r2) = old_power r1
         \<and> writes_of (trace s2) = writes_of (trace s) @
             [Sent (build_request self ''PUT'' (''lights/'' @ sel @ ''/state'')
                     (Some (JObj [(''power'', JStr (new_power r1))]))),
              Sent (build_request self ''PUT'' (''lights/'' @ sel @ ''/state'')
                     (Some (JObj [(''power'', old_power r1)])))]"
proof -
  note t1 = toggle_light_success [OF assms(1)]
  note t2 = toggle_light_success [OF assms(2)]
  have restored: "JStr (new_power r2) = old_power r1"
    using t1 t2 assms(3,4) by auto
  with t1 t2 show ?thesis
    by simp
qed

theorem toggle_twice_restores_witness:
  "toggle_light test_controller light_service ''label:Kitchen''
       \<lparr>world = JStr ''on'', trace = []\<rparr>
     = (Inr \<lparr>old_power = JStr ''on'', new_power = ''off'',
             api_response = JObj [(''results'', JList [JObj [(''status'', JStr ''ok'')]])],
             success = True\<rparr>,
        \<lparr>world = JStr ''off'',
         trace = [Sent (build_request test_controller ''GET'' ''lights/label:Kitchen'' None),
                  Closed,
                  Sent (build_request test_controller ''PUT'' ''lights/label:Kitchen/state''
                         (Some (JObj [(''power'', JStr ''off'')]))),
                  Closed]\<rparr>)
   \<and> fst (toggle_light test_controller light_service ''label:Kitchen''
        \<lparr>world = JStr ''off'',
         trace = [Sent (build_request test_controller ''GET'' ''lights/label:Kitchen'' None),
                  Closed,
                  Sent (build_request test_controller ''PUT'' ''lights/label:Kitchen/state''
                         (Some (JObj [(''power'', JStr ''off'')]))),
                  Closed]\<rparr>)
     = Inr \<lparr>old_power = JStr ''off'', new_power = ''on'',
            api_response = JObj [(''results'', JList [JObj [(''status'', JStr ''ok'')]])],
            success = True\<rparr>
   \<and> world (snd (toggle_light test_controller light_service ''label:Kitchen''
        \<lparr>world = JStr ''off'',
         trace = [Sent (build_request test_controller ''GET'' ''lights/label:Kitchen'' None),
                  Closed,
                  Sent (build_request test_controller ''PUT'' ''lights/label:Kitchen/state''
                         (Some (JObj [(''power'', JStr ''off'')]))),
                  Closed]\<rparr>)) = JStr ''on''
   \<and> JStr (new_power \<lparr>old_power = JStr ''off'', new_power = ''on'',
            api_response = JObj [(''results'', JList [JObj [(''status'', JStr ''ok'')]])],
            success = True\<rparr>) = JStr ''on''"
proof -
  let ?s0 = "\<lparr>world = JStr ''on'', trace = []\<rparr>"
  let ?tr1 = "[Sent (build_request test_controller ''GET'' ''lights/label:Kitchen'' None),
                  Closed,
                  Sent (build_request test_controller ''PUT'' ''lights/label:Kitchen/state''
                         (Some (JObj [(''power'', JStr ''off'')]))),
                  Closed]"
  let ?s1 = "\<lparr>world = JStr ''off'', trace = ?tr1\<rparr>"
  let ?r1 = "\<lparr>old_power = JStr ''on'', new_power = ''off'',
             api_response = JObj [(''results'', JList [JObj [(''status'', JStr ''ok'')]])],
             success = True\<rparr>"
  let ?r2 = "\<lparr>old_power = JStr ''off'', new_power = ''on'',
             api_response = JObj [(''results'', JList [JObj [(''status'', JStr ''ok'')]])],
             success = True\<rparr>"
  let ?s2 = "\<lparr>world = JStr ''on'',
       trace = ?tr1 @ [Sent (build_request test_controller ''GET'' ''lights/label:Kitchen'' None),
                  Closed,
                  Sent (build_request test_controller ''PUT'' ''lights/label:Kitchen/state''
                         (Some (JObj [(''power'', JStr ''on'')]))),
                  Closed]\<rparr>"
  have a: "toggle_light test_controller light_service ''label:Kitchen'' ?s0 = (Inr ?r1, ?s1)"
    by (simp add: light_service_toggle)
  have b: "toggle_light test_controller light_service ''label:Kitchen'' ?s1 = (Inr ?r2, ?s2)"
    by (simp add: light_service_toggle)
  have c: "old_power ?r2 = JStr (new_power ?r1)"
    by simp
  have d: "old_power ?r1 = JStr ''on'' \<or> old_power ?r1 = JStr ''off''"
    by simp
  show ?thesis
    using a b toggle_twice_restores [OF a b c d]
    by simp
qed

section \<open>Writes\<close>

lemma count_ok_objects:
  "\<forall>r\<in>set rs. \<exists>fields. r = JObj fields \<Longrightarrow>
     count_ok rs = Inr (length (filter (\<lambda>r. dict_get r ''status'' = Inr (JStr ''ok'')) rs))"
  by (induction rs) auto

lemma check_results_objects:
  assumes "map_of kvs ''results'' = Some (JList rs)"
    and "\<forall>r\<in>set rs. \<exists>fields. r = JObj fields"
  shows "check_results (JObj kvs) =
     (if \<exists>r\<in>set rs. dict_get r ''status'' = Inr (JStr ''ok'') then Inr ()
      else Inl (LIFXAPIError ''No lights were successfully updated''))"
proof -
  have k: "''results'' \<in> fst ` set kvs"
    using assms(1) by (metis map_of_eq_None_iff option.distinct(1))
  have z: "(length (filter (\<lambda>r. dict_get r ''status'' = Inr (JStr ''ok'')) rs) = 0)
      = (\<not> (\<exists>r\<in>set rs. dict_get r ''status'' = Inr (JStr ''ok'')))"
    by (simp add: filter_empty_conv)
  show ?thesis
    using k assms(1) z
    by (simp add: check_results_def count_ok_objects [OF assms(2)] del: length_0_conv)
qed

text \<open>
  C3. A write whose response carries a \<^verbatim>\<open>results\<close> list of per-device objects
  succeeds, returning the response, as soon as one entry has status \<^verbatim>\<open>"ok"\<close>,
  whatever the others report; with no \<^verbatim>\<open>"ok"\<close> entry it raises
  \<^verbatim>\<open>LIFXAPIError("No lights were successfully updated")\<close>.
\<close>

theorem bulk_write_needs_one_ok:
  assumes "make_request self http ''PUT'' (''lights/'' @ sel @ ''/state'')
             (Some (build_state p b c)) s = (Inr (JObj kvs), s1)"
    and "build_state p b c \<noteq> []"
    and "map_of kvs ''results'' = Some (JList rs)"
    and "\<forall>r\<in>set rs. \<exists>fields. r = JObj fields"
  shows "set_light_state self http sel p b c s =
     (if \<exists>r\<in>set rs. dict_get r ''status'' = Inr (JStr ''ok'')
      then (Inr (JObj kvs), s1)
      else (Inl (LIFXAPIError ''No lights were successfully updated''), s1))"
  using assms(1,2)
  by (simp add: set_light_state_def Let_def check_results_objects [OF assms(3,4)])

theorem bulk_write_needs_one_ok_witness:
  "set_light_state test_controller reporting_service ''group:Downstairs'' (Some ''off'') None None
      \<lparr>world = [JObj [(''status'', JStr ''ok'')], JObj [(''status'', JStr ''failed'')]], trace = []\<rparr>
     = (Inr (JObj [(''results'',
                    JList [JObj [(''status'', JStr ''ok'')], JObj [(''status'', JStr ''failed'')]])]),
        \<lparr>world = [JObj [(''status'', JStr ''ok'')], JObj [(''status'', JStr ''failed'')]],
         trace = [Sent (build_request test_controller ''PUT'' ''lights/group:Downstairs/state''
                         (Some (JObj [(''power'', JStr ''off'')]))), Closed]\<rparr>)
   \<and> set_light_state test_controller reporting_service ''group:Downstairs'' (Some ''off'') None None
      \<lparr>world = [JObj [(''status'', JStr ''failed'')]], trace = []\<rparr>
     = (Inl (LIFXAPIError ''No lights were successfully updated''),
        \<lparr>world = [JObj [(''status'', JStr ''failed'')]],
         trace = [Sent (build_request test_controller ''PUT'' ''lights/group:Downstairs/state''
                         (Some (JObj [(''power'', JStr ''off'')]))), Closed]\<rparr>)"
proof -
  let ?req = "Sent (build_request test_controller ''PUT'' ''lights/group:Downstairs/state''
                (Some (JObj [(''power'', JStr ''off'')])))"
  let ?mixed = "[JObj [(''status'', JStr ''ok'')], JObj [(''status'', JStr ''failed'')]]"
  let ?failed = "[JObj [(''status'', JStr ''failed'')]]"
  have ne: "build_state (Some ''off'') None None \<noteq> []"
    by (simp add: build_state_def)
  have m1: "make_request test_controller reporting_service ''PUT''
              (''lights/'' @ ''group:Downstairs'' @ ''/state'')
              (Some (build_state (Some ''off'') None None)) \<lparr>world = ?mixed, trace = []\<rparr>
            = (Inr (JObj [(''results'', JList ?mixed)]),
               \<lparr>world = ?mixed, trace = [?req, Closed]\<rparr>)"
    using reporting_service_put [OF ne, of test_controller _ ?mixed "[]"]
    by (simp add: build_state_def)
  have m2: "make_request test_controller reporting_service ''PUT''
              (''lights/'' @ ''group:Downstairs'' @ ''/state'')
              (Some (build_state (Some ''off'') None None)) \<lparr>world = ?failed, trace = []\<rparr>
            = (Inr (JObj [(''results'', JList ?failed)]),
               \<lparr>world = ?failed, trace = [?req, Closed]\<rparr>)"
    using reporting_service_put [OF ne, of test_controller _ ?failed "[]"]
    by (simp add: build_state_def)
  have k1: "map_of [(''results'', JList ?mixed)] ''results'' = Some (JList ?mixed)"
    by simp
  have k2: "map_of [(''results'', JList ?failed)] ''results'' = Some (JList ?failed)"
    by simp
  have o1: "\<forall>r\<in>set ?mixed. \<exists>fields. r = JObj fields"
    by simp
  have o2: "\<forall>r\<in>set ?failed. \<exists>fields. r = JObj fields"
    by simp
  show ?thesis
    using bulk_write_needs_one_ok [OF m1 ne k1 o1] bulk_write_needs_one_ok [OF m2 ne k2 o2]
    by simp
qed

text \<open>
  C10. \<^verbatim>\<open>set_light_state\<close> with no power, no brightness and no color raises
  \<^verbatim>\<open>LIFXAPIError("No state changes specified")\<close> and leaves the network state as it
  was: nothing is sent.
\<close>

theorem no_state_change_rejected:
  "set_light_state self http sel None None None s
     = (Inl (LIFXAPIError ''No state changes specified''), s)"
  by (simp add: set_light_state_def build_state_def)

theorem no_state_change_rejected_witness:
  "set_light_state test_controller light_service ''label:Kitchen'' None None None
      \<lparr>world = JStr ''on'', trace = []\<rparr>
     = (Inl (LIFXAPIError ''No state changes specified''), \<lparr>world = JStr ''on'', trace = []\<rparr>)"
  using no_state_change_rejected [of test_controller light_service "''label:Kitchen''"
      "\<lparr>world = JStr ''on'', trace = []\<rparr>"]
  by simp

section \<open>Construction and requests\<close>

text \<open>
  C8. Constructing the controller raises \<^verbatim>\<open>LIFXAPIError("Invalid LIFX API token format")\<close>
  exactly when the effective token (the argument, or the configured token when the
  argument is absent or empty) is not 64 characters long; with 64 characters it returns
  the controller holding that token.
\<close>

theorem token_length_checked:
  "LIFXController_init LIFX_TOKEN token_arg timeout_ms =
     (if length (effective_token LIFX_TOKEN token_arg) \<noteq> 64
      then Inl (LIFXAPIError ''Invalid LIFX API token format'')
      else Inr \<lparr>api_token = effective_token LIFX_TOKEN token_arg,
                timeout = of_int timeout_ms / 1000,
                base_url = ''https://api.lifx.com/v1''\<rparr>)"
  by (auto simp: LIFXController_init_def Let_def)

theorem token_length_checked_witness:
  "LIFXController_init (replicate 63 CHR ''a'') None 400
     = Inl (LIFXAPIError ''Invalid LIFX API token format'')
   \<and> LIFXController_init (replicate 64 CHR ''a'') None 400
     = Inr \<lparr>api_token = replicate 64 CHR ''a'', timeout = 2 / 5,
            base_url = ''https://api.lifx.com/v1''\<rparr>
   \<and> LIFXController_init (replicate 64 CHR ''a'') (Some (replicate 65 CHR ''b'')) 400
     = Inl (LIFXAPIError ''Invalid LIFX API token format'')"
  using token_length_checked [of "replicate 63 CHR ''a''" None 400]
    token_length_checked [of "replicate 64 CHR ''a''" None 400]
    token_length_checked [of "replicate 64 CHR ''a''" "Some (replicate 65 CHR ''b'')" 400]
  by (simp add: effective_token_def)

text \<open>
  C9. When the HTTP call itself raises, \<^verbatim>\<open>response\<close> is still unassigned in the
  \<^verbatim>\<open>except\<close> block of \<^verbatim>\<open>_make_request\<close>: the handler's own
  \<^verbatim>\<open>hasattr(response, 'close')\<close> raises \<^verbatim>\<open>UnboundLocalError\<close>, nothing is closed,
  and that error, not the transport's, leaves the function. With the network down:
\<close>

theorem transport_error_skips_close:
  "make_request test_controller network_down ''GET'' ''lights/label:Kitchen'' None
      \<lparr>world = (), trace = []\<rparr>
     = (Inl (OtherException ''UnboundLocalError''
              ''local variable 'response' referenced before assignment''),
        \<lparr>world = (),
         trace = [Sent (build_request test_controller ''GET'' ''lights/label:Kitchen'' None)]\<rparr>)
   \<and> Closed \<notin> set (trace (snd (make_request test_controller network_down ''GET''
        ''lights/label:Kitchen'' None \<lparr>world = (), trace = []\<rparr>)))"
  by (simp add: make_request_def requests_call_def request_handler_def network_down_def)

end
